theory Spec2Isabelle
  imports Complex_Main "HOL-Library.Word"
begin

section \<open>JavaScript values used by server.js\<close>

text \<open>
  A JavaScript string is a sequence of UTF-16 code units; \<open>split\<close>, \<open>join\<close>, \<open>slice\<close> and
  \<open>trim\<close> work on code units. Transcript texts are therefore lists of 16-bit words.
  File paths, step names and messages only ever get compared, concatenated or tested for
  emptiness, and are kept as HOL strings. JavaScript numbers are modelled as exact
  rationals (the rounding error of a floating-point quotient is not modelled).
\<close>

type_synonym jschar = "16 word"
type_synonym jsstring = "jschar list"

definition str :: "string \<Rightarrow> jsstring" where
  "str s = map of_char s"

definition space :: jschar where
  "space = 0x20"

text \<open>
  \<open>String.prototype.trim\<close> removes WhiteSpace and LineTerminator code points from both
  ends: TAB, LF, VT, FF, CR, SP, NBSP, U+1680, U+2000..U+200A, U+2028, U+2029, U+202F,
  U+205F, U+3000 and U+FEFF.
\<close>

definition isWhiteSpace :: "jschar \<Rightarrow> bool" where
  "isWhiteSpace c \<longleftrightarrow>
     c = 0x09 \<or> c = 0x0A \<or> c = 0x0B \<or> c = 0x0C \<or> c = 0x0D \<or> c = 0x20 \<or> c = 0xA0 \<or>
     c = 0x1680 \<or> (0x2000 \<le> c \<and> c \<le> 0x200A) \<or> c = 0x2028 \<or> c = 0x2029 \<or>
     c = 0x202F \<or> c = 0x205F \<or> c = 0x3000 \<or> c = 0xFEFF"

definition js_trim :: "jsstring \<Rightarrow> jsstring" where
  "js_trim s = rev (dropWhile isWhiteSpace (rev (dropWhile isWhiteSpace s)))"

text \<open>
  \<open>s.split(sep)\<close> for a one-unit separator: the pieces between the separators, empty
  pieces included; the empty string splits into one empty piece.
\<close>

fun splitWhen :: "(jschar \<Rightarrow> bool) \<Rightarrow> jsstring \<Rightarrow> jsstring list" where
  "splitWhen p [] = [[]]"
| "splitWhen p (c # cs) =
     (if p c then [] # splitWhen p cs
      else (case splitWhen p cs of
              w # ws \<Rightarrow> (c # w) # ws
            | [] \<Rightarrow> [[c]]))"

definition js_split :: "jschar \<Rightarrow> jsstring \<Rightarrow> jsstring list" where
  "js_split sep s = splitWhen (\<lambda>c. c = sep) s"

fun js_join :: "jsstring \<Rightarrow> jsstring list \<Rightarrow> jsstring" where
  "js_join sep [] = []"
| "js_join sep [w] = w"
| "js_join sep (w # ws) = w @ sep @ js_join sep ws"

text \<open>\<open>xs.slice(n)\<close> for a non-negative integer \<open>n\<close>.\<close>

definition js_slice :: "nat \<Rightarrow> 'a list \<Rightarrow> 'a list" where
  "js_slice n xs = drop n xs"

section \<open>Constants\<close>

definition MAX_FILE_SIZE_MB :: rat where
  "MAX_FILE_SIZE_MB = 25"

definition CHUNK_DURATION_SECONDS :: rat where
  "CHUNK_DURATION_SECONDS = 600"

definition CHUNK_OVERLAP_SECONDS :: rat where
  "CHUNK_OVERLAP_SECONDS = 10"

section \<open>mergeTranscriptions\<close>

text \<open>
  A transcription is the object returned by the speech-to-text call. Only its \<open>text\<close>
  field is read; whatever else the object carries is the record's extension.
\<close>

record transcription =
  "text" :: jsstring

definition overlapWords :: nat where
  "overlapWords = nat \<lceil>CHUNK_OVERLAP_SECONDS * 2\<rceil>"

text \<open>The body of the \<open>for\<close> loop, for index \<open>i\<close> and the text merged so far.\<close>

definition mergeStep :: "nat \<Rightarrow> jsstring \<Rightarrow> jsstring \<Rightarrow> jsstring" where
  "mergeStep i mergedText t =
     (if i = 0 then t
      else (let ws = js_split space t;
                textWithoutOverlap = js_join [space] (js_slice overlapWords ws)
            in mergedText @ [space] @ textWithoutOverlap))"

fun mergeLoop :: "nat \<Rightarrow> jsstring \<Rightarrow> ('a transcription_scheme) list \<Rightarrow> jsstring" where
  "mergeLoop i mergedText [] = mergedText"
| "mergeLoop i mergedText (t # ts) = mergeLoop (Suc i) (mergeStep i mergedText (text t)) ts"

definition mergeTranscriptions :: "('a transcription_scheme) list \<Rightarrow> jsstring" where
  "mergeTranscriptions transcriptions =
     (if length transcriptions = 1 then text (transcriptions ! 0)
      else js_trim (mergeLoop 0 [] transcriptions))"

text \<open>
  The merge as the specification words it, for comparison: tokens are the maximal runs
  of non-whitespace code units.
\<close>

definition whitespaceTokens :: "jsstring \<Rightarrow> jsstring list" where
  "whitespaceTokens s = filter (\<lambda>w. w \<noteq> []) (splitWhen isWhiteSpace s)"

definition spec_mergeTranscriptions :: "('a transcription_scheme) list \<Rightarrow> jsstring" where
  "spec_mergeTranscriptions ts =
     js_trim (text (hd ts) @
       concat (map (\<lambda>t. [space] @ js_join [space] (drop 20 (whitespaceTokens (text t)))) (tl ts)))"

section \<open>Number formatting and path rewriting\<close>

text \<open>Decimal rendering of an integer inside a template literal.\<close>

definition digit :: "nat \<Rightarrow> char" where
  "digit d = ''0123456789'' ! d"

fun show_nat :: "nat \<Rightarrow> string" where
  "show_nat n =
     (if n < 10 then [digit n]
      else show_nat (n div 10) @ [digit (n mod 10)])"

declare show_nat.simps [simp del]

definition show_int :: "int \<Rightarrow> string" where
  "show_int k = (if k < 0 then ''-'' @ show_nat (nat (- k)) else show_nat (nat k))"

text \<open>
  \<open>Math.round\<close>: the nearest integer, halves rounded up. Numbers are exact here; the code
  rounds a double, which can give the neighbouring integer where the exact value is a
  half (chunk 23 of 40: 57.5 exactly, just under it as a double).
\<close>

definition jsRound :: "rat \<Rightarrow> int" where
  "jsRound x = \<lfloor>x + 1 / 2\<rfloor>"

text \<open>\<open>s.replace(pat, rep)\<close> with a string pattern: the first occurrence only.\<close>

fun replaceFirst :: "string \<Rightarrow> string \<Rightarrow> string \<Rightarrow> string" where
  "replaceFirst pat rep [] = (if pat = [] then rep else [])"
| "replaceFirst pat rep (c # cs) =
     (if take (length pat) (c # cs) = pat then rep @ drop (length pat) (c # cs)
      else c # replaceFirst pat rep cs)"

section \<open>Server state\<close>

type_synonym path = string
type_synonym jobId = string

record episode =
  title :: string
  pubDate :: string
  itunesDuration :: string
  enclosureUrl :: "string option"

record spotifyData =
  name :: string
  subtitle :: string

record result =
  episodeTitle :: string
  episodePublished :: string
  episodeDuration :: string
  transcript :: jsstring
  summary :: "jsstring option"

text \<open>
  The value stored under a key of a job's progress object: a step entry
  \<open>{percentage, message, timestamp}\<close> (the timestamp is never read and is left out), the
  boolean written to \<open>complete\<close>, or the result object.
\<close>

datatype pvalue = Entry int string | Flag bool | Outcome result

type_synonym progress = "string \<rightharpoonup> pvalue"

text \<open>One ffmpeg run of the splitter: input, \<open>setStartTime\<close>, \<open>setDuration\<close>, output.\<close>

record ffmpegRun =
  runInput :: path
  runStartTime :: rat
  runDuration :: rat
  runOutput :: path

text \<open>
  \<open>progressStore\<close> is the job table. \<open>progressLog\<close> is the console line that every
  \<open>updateProgress\<close> prints: the history of published (job, step, percentage, message).
  \<open>files\<close> maps each file of the scratch directory to its size in bytes. \<open>ffmpegLog\<close>
  lists the splitter's ffmpeg runs. \<open>timers\<close> are the pending \<open>setTimeout\<close> callbacks of
  the result endpoint (due time in ms, job to delete) and \<open>clock\<close> is the time in ms.
\<close>

record server =
  progressStore :: "jobId \<rightharpoonup> progress"
  progressLog :: "(jobId \<times> string \<times> int \<times> string) list"
  files :: "path \<rightharpoonup> nat"
  ffmpegLog :: "ffmpegRun list"
  timers :: "(nat \<times> jobId) list"
  clock :: nat

text \<open>
  An asynchronous function either returns a value or throws; an exception is modelled by
  its message. State changes made before a throw stay.
\<close>

type_synonym 'a io = "server \<Rightarrow> server \<times> (string + 'a)"

definition ret :: "'a \<Rightarrow> 'a io" where
  "ret x s = (s, Inr x)"

definition throw :: "string \<Rightarrow> 'a io" where
  "throw e s = (s, Inl e)"

definition bind :: "'a io \<Rightarrow> ('a \<Rightarrow> 'b io) \<Rightarrow> 'b io" where
  "bind m f s = (case m s of (s', Inl e) \<Rightarrow> (s', Inl e) | (s', Inr x) \<Rightarrow> f x s')"

text \<open>A step that cannot throw, run for its effect on the state.\<close>

definition exec :: "(server \<Rightarrow> server) \<Rightarrow> unit io" where
  "exec f s = (f s, Inr ())"

text \<open>
  A \<open>for\<close> loop over the indices \<open>is\<close> whose body may throw: the body gets the index and
  the value accumulated so far; the first exception ends the loop.
\<close>

primrec forEach :: "nat list \<Rightarrow> (nat \<Rightarrow> 'a \<Rightarrow> 'a io) \<Rightarrow> 'a \<Rightarrow> 'a io" where
  "forEach [] body acc = ret acc"
| "forEach (i # rest) body acc = bind (body i acc) (forEach rest body)"

section \<open>The outside world\<close>

text \<open>
  What the download does. The request fails; or the body streams to the file and the
  writer ends, with its \<open>finish\<close> or its \<open>error\<close> event; or the body stops before its end
  and the writer gets neither event, as when the response stream breaks (\<open>pipe\<close> does not
  pass a broken source on to the writer).
\<close>

datatype download =
  RequestFails string
| Streams "(nat \<times> nat) list" nat "string option"
| Stalls "(nat \<times> nat) list" nat

text \<open>
  Every call that leaves the process is answered by the environment: the request body,
  the metadata lookup, the feed search, the feed parse with the choice of the episode,
  the regular-expression match of \<open>extractEpisodeId\<close>, \<open>Date.now()\<close>, the download
  (progress events as (loaded, total), bytes written, the writer's error if any),
  ffprobe, the splitter's ffmpeg runs and the compression command (the size of the file
  written, or the error), the speech-to-text call, and the summariser (its text, empty
  when the response holds none).
\<close>

record env =
  spotifyUrl :: "string option"
  providedRssUrl :: "string option"
  getData :: "string \<Rightarrow> string + spotifyData option"
  findRssFeed :: "string \<Rightarrow> string option"
  selectEpisode :: "string \<Rightarrow> string + episode"
  episodeIdMatch :: "string \<Rightarrow> string option"
  dateNow :: nat
  fetchAudio :: "string \<Rightarrow> download"
  ffprobe :: "path \<Rightarrow> string + rat"
  ffmpeg :: "ffmpegRun \<Rightarrow> string + nat"
  execCompress :: "path \<Rightarrow> path \<Rightarrow> string + nat"
  groq :: "path \<Rightarrow> string + transcription"
  geminiKey :: bool
  gemini :: "jsstring \<Rightarrow> string + jsstring"

section \<open>Helpers of server.js\<close>

definition TEMP_DIR :: path where
  "TEMP_DIR = ''/tmp''"

definition updateProgress :: "jobId \<Rightarrow> string \<Rightarrow> int \<Rightarrow> string \<Rightarrow> server \<Rightarrow> server" where
  "updateProgress jobId step percentage message s =
     (let progress = (case progressStore s jobId of None \<Rightarrow> Map.empty | Some p \<Rightarrow> p)
      in s\<lparr>progressStore := (progressStore s)(jobId \<mapsto> progress(step \<mapsto> Entry percentage message)),
           progressLog := progressLog s @ [(jobId, step, percentage, message)]\<rparr>)"

text \<open>\<open>progressStore.get(jobId).key = v\<close>: a TypeError when the job has no entry.\<close>

definition setProperty :: "jobId \<Rightarrow> string \<Rightarrow> pvalue \<Rightarrow> unit io" where
  "setProperty jobId key v s =
     (case progressStore s jobId of
        None \<Rightarrow> (s, Inl ''Cannot set properties of undefined'')
      | Some p \<Rightarrow> (s\<lparr>progressStore := (progressStore s)(jobId \<mapsto> p(key \<mapsto> v))\<rparr>, Inr ()))"

definition writeFile :: "path \<Rightarrow> nat \<Rightarrow> server \<Rightarrow> server" where
  "writeFile p n s = s\<lparr>files := (files s)(p \<mapsto> n)\<rparr>"

text \<open>\<open>fs.unlink\<close> inside try/catch: a missing file is logged and ignored.\<close>

definition cleanupFile :: "path \<Rightarrow> server \<Rightarrow> server" where
  "cleanupFile filepath s = s\<lparr>files := (files s)(filepath := None)\<rparr>"

definition getFileSizeMB :: "path \<Rightarrow> rat io" where
  "getFileSizeMB filepath s =
     (case files s filepath of
        None \<Rightarrow> (s, Inl ''ENOENT: no such file or directory'')
      | Some n \<Rightarrow> (s, Inr (of_nat n / (1024 * 1024))))"

definition getAudioDuration :: "env \<Rightarrow> path \<Rightarrow> rat io" where
  "getAudioDuration e filepath s = (s, ffprobe e filepath)"

definition extractEpisodeId :: "env \<Rightarrow> string \<Rightarrow> string io" where
  "extractEpisodeId e url =
     (case episodeIdMatch e url of
        None \<Rightarrow> throw ''Invalid Spotify episode URL''
      | Some m \<Rightarrow> ret m)"

section \<open>downloadAudio\<close>

definition downloadEvent :: "jobId \<Rightarrow> nat \<times> nat \<Rightarrow> server \<Rightarrow> server" where
  "downloadEvent jobId ev s =
     (case ev of (loadedBytes, totalBytes) \<Rightarrow>
        if totalBytes \<noteq> 0 then
          (let percentage = jsRound (of_nat (loadedBytes * 100) / of_nat totalBytes)
           in updateProgress jobId ''download'' percentage
                (''Downloading audio... '' @ show_int percentage @ ''%'') s)
        else s)"

text \<open>
  The promise returned by \<open>downloadAudio\<close> is settled by the writer's \<open>finish\<close> and
  \<open>error\<close> events only. The result \<open>None\<close> stands for the promise that is never settled:
  the caller waits at its \<open>await\<close> for good.
\<close>

definition downloadAudio :: "env \<Rightarrow> string \<Rightarrow> string \<Rightarrow> jobId \<Rightarrow> path option io" where
  "downloadAudio e audioUrl episodeId jobId s =
     (let filename = episodeId @ ''_'' @ show_nat (dateNow e) @ ''.mp3'';
          filepath = TEMP_DIR @ ''/'' @ filename;
          s1 = updateProgress jobId ''download'' 0 ''Starting download...'' s
      in case fetchAudio e audioUrl of
           RequestFails m \<Rightarrow> (s1, Inl m)
         | Streams events written failure \<Rightarrow>
             (let s2 = writeFile filepath written (fold (downloadEvent jobId) events s1)
              in case failure of
                   Some m \<Rightarrow> (s2, Inl m)
                 | None \<Rightarrow> (updateProgress jobId ''download'' 100 ''Download complete'' s2,
                             Inr (Some filepath)))
         | Stalls events written \<Rightarrow>
             (writeFile filepath written (fold (downloadEvent jobId) events s1), Inr None))"

section \<open>splitAudioIntoChunks\<close>

definition chunkRun :: "path \<Rightarrow> nat \<Rightarrow> ffmpegRun" where
  "chunkRun inputPath i =
     \<lparr>runInput = inputPath,
      runStartTime = max 0 (of_nat i * CHUNK_DURATION_SECONDS - CHUNK_OVERLAP_SECONDS),
      runDuration = CHUNK_DURATION_SECONDS + CHUNK_OVERLAP_SECONDS,
      runOutput = replaceFirst ''.mp3'' (''_chunk_'' @ show_nat i @ ''.mp3'') inputPath\<rparr>"

text \<open>
  The body of the \<open>for\<close> loop for index \<open>i\<close>, given the chunks made so far. A failed
  ffmpeg run rejects, and is taken to leave no chunk file behind.
\<close>

definition splitStep :: "env \<Rightarrow> path \<Rightarrow> jobId \<Rightarrow> int \<Rightarrow> nat \<Rightarrow> path list \<Rightarrow> path list io" where
  "splitStep e inputPath jobId numChunks i chunks s =
     (let run = chunkRun inputPath i;
          s1 = s\<lparr>ffmpegLog := ffmpegLog s @ [run]\<rparr>
      in case ffmpeg e run of
           Inl m \<Rightarrow> (s1, Inl m)
         | Inr written \<Rightarrow>
             (let s2 = writeFile (runOutput run) written s1;
                  percentage = jsRound (of_nat (i + 1) / of_int numChunks * 100);
                  s3 = updateProgress jobId ''splitting'' percentage
                         (''Created chunk '' @ show_nat (i + 1) @ ''/'' @ show_int numChunks) s2
              in (s3, Inr (chunks @ [runOutput run]))))"

definition splitAudioIntoChunks :: "env \<Rightarrow> path \<Rightarrow> jobId \<Rightarrow> path list io" where
  "splitAudioIntoChunks e inputPath jobId =
     bind (getAudioDuration e inputPath) (\<lambda>duration.
       (let numChunks = \<lceil>duration / CHUNK_DURATION_SECONDS\<rceil>
        in bind (exec (updateProgress jobId ''splitting'' 0
                   (''Splitting into '' @ show_int numChunks @ '' chunks...''))) (\<lambda>_.
           bind (forEach [0..<nat numChunks] (splitStep e inputPath jobId numChunks) []) (\<lambda>chunks.
           bind (exec (updateProgress jobId ''splitting'' 100 ''Audio splitting complete'')) (\<lambda>_.
           ret chunks)))))"

text \<open>
  The source audio two consecutive chunks share, for an audio of \<open>d\<close> seconds: the first
  chunk's window, cut at the end of the audio, reaches past the start of the second by
  this much.
\<close>

definition sharedSeconds :: "rat \<Rightarrow> ffmpegRun \<Rightarrow> ffmpegRun \<Rightarrow> rat" where
  "sharedSeconds d a b = max 0 (min d (runStartTime a + runDuration a) - runStartTime b)"

section \<open>compressAudio and transcribeWithGroq\<close>

text \<open>
  A failed compression command is caught: the input path is returned instead. A failed
  command is taken to leave no output file behind.
\<close>

definition compressAudio :: "env \<Rightarrow> path \<Rightarrow> jobId \<Rightarrow> path io" where
  "compressAudio e inputPath jobId s =
     (let outputPath = replaceFirst ''.mp3'' ''_compressed.mp3'' inputPath;
          s1 = updateProgress jobId ''compress'' 0 ''Compressing audio...'' s
      in case execCompress e inputPath outputPath of
           Inr written \<Rightarrow>
             (updateProgress jobId ''compress'' 100 ''Compression complete''
                (writeFile outputPath written s1), Inr outputPath)
         | Inl m \<Rightarrow> (s1, Inr inputPath))"

text \<open>
  \<open>chunk\<close> is \<open>Some (chunkIndex, totalChunks)\<close>, or \<open>None\<close> when both arguments are null.
\<close>

definition transcribeWithGroq :: "env \<Rightarrow> path \<Rightarrow> (nat \<times> nat) option \<Rightarrow> jobId \<Rightarrow> transcription io" where
  "transcribeWithGroq e filepath chunk jobId s =
     (let chunkInfo =
            (case chunk of
               None \<Rightarrow> []
             | Some (chunkIndex, totalChunks) \<Rightarrow>
                 '' (chunk '' @ show_nat (chunkIndex + 1) @ ''/'' @ show_nat totalChunks @ '')'');
          s1 = updateProgress jobId ''transcribe'' 0 (''Transcribing'' @ chunkInfo @ ''...'') s
      in case groq e filepath of
           Inl m \<Rightarrow> (s1, Inl m)
         | Inr transcription \<Rightarrow>
             (case chunk of
                Some (chunkIndex, totalChunks) \<Rightarrow>
                  (let percentage = jsRound (of_nat (chunkIndex + 1) / of_nat totalChunks * 100)
                   in (updateProgress jobId ''transcribe'' percentage
                         (''Transcribed chunk '' @ show_nat (chunkIndex + 1) @ ''/'' @
                          show_nat totalChunks) s1,
                       Inr transcription))
              | None \<Rightarrow>
                  (updateProgress jobId ''transcribe'' 100 ''Transcription complete'' s1,
                   Inr transcription)))"

section \<open>processTranscription\<close>

text \<open>The body of the loop over the chunks: transcribe chunk \<open>i\<close>, then delete its file.\<close>

definition transcribeChunk ::
  "env \<Rightarrow> path list \<Rightarrow> jobId \<Rightarrow> nat \<Rightarrow> transcription list \<Rightarrow> transcription list io" where
  "transcribeChunk e chunks jobId i transcriptions =
     bind (transcribeWithGroq e (chunks ! i) (Some (i, length chunks)) jobId) (\<lambda>transcription.
     bind (exec (cleanupFile (chunks ! i))) (\<lambda>_.
     ret (transcriptions @ [transcription])))"

definition transcribeChunks :: "env \<Rightarrow> path list \<Rightarrow> jobId \<Rightarrow> transcription list io" where
  "transcribeChunks e chunks jobId =
     forEach [0..<length chunks] (transcribeChunk e chunks jobId) []"

text \<open>The merge step: progress at 0, the merge, progress at 100.\<close>

definition mergeChunks :: "jobId \<Rightarrow> ('a transcription_scheme) list \<Rightarrow> jsstring io" where
  "mergeChunks jobId transcriptions =
     bind (exec (updateProgress jobId ''merge'' 0 ''Merging transcriptions...'')) (\<lambda>_.
     (let mergedText = mergeTranscriptions transcriptions
      in bind (exec (updateProgress jobId ''merge'' 100 ''Merge complete'')) (\<lambda>_.
         ret mergedText)))"

definition cleanupCompressed :: "path \<Rightarrow> path \<Rightarrow> server \<Rightarrow> server" where
  "cleanupCompressed compressedPath audioPath s =
     (if compressedPath \<noteq> audioPath then cleanupFile compressedPath s else s)"

definition processTranscription :: "env \<Rightarrow> path \<Rightarrow> jobId \<Rightarrow> jsstring io" where
  "processTranscription e audioPath jobId =
     bind (getFileSizeMB audioPath) (\<lambda>fileSizeMB.
       if fileSizeMB > MAX_FILE_SIZE_MB then
         bind (splitAudioIntoChunks e audioPath jobId) (\<lambda>chunks.
         bind (transcribeChunks e chunks jobId) (\<lambda>transcriptions.
         mergeChunks jobId transcriptions))
       else
         bind (compressAudio e audioPath jobId) (\<lambda>compressedPath.
         bind (getFileSizeMB compressedPath) (\<lambda>finalSizeMB.
           if finalSizeMB > MAX_FILE_SIZE_MB then
             bind (splitAudioIntoChunks e compressedPath jobId) (\<lambda>chunks.
             bind (transcribeChunks e chunks jobId) (\<lambda>transcriptions.
             bind (mergeChunks jobId transcriptions) (\<lambda>mergedText.
             bind (exec (cleanupCompressed compressedPath audioPath)) (\<lambda>_.
             ret mergedText))))
           else
             bind (transcribeWithGroq e compressedPath None jobId) (\<lambda>transcription.
             bind (exec (cleanupCompressed compressedPath audioPath)) (\<lambda>_.
             ret (text transcription))))))"

section \<open>summariseWithGemini\<close>

text \<open>
  Every failure is caught inside, so the function returns the summary or null and never
  throws. \<open>sendWebhook\<close> posts to an outside address and swallows its own failures; it
  touches neither the job table nor the files and is left out here and below.
\<close>

definition summariseWithGemini ::
  "env \<Rightarrow> jsstring \<Rightarrow> string \<Rightarrow> jobId \<Rightarrow> server \<Rightarrow> server \<times> jsstring option" where
  "summariseWithGemini e transcriptText episodeName jobId s =
     (if \<not> geminiKey e then
        ((if jobId \<noteq> [] then
            updateProgress jobId ''summary'' 100
              ''Summary skipped (Gemini API key not configured)'' s
          else s), None)
      else
        (let s1 = updateProgress jobId ''summary'' 0 ''Summarising transcript with Gemini...'' s;
             shown = (if length transcriptText > 20000
                      then take 20000 transcriptText @ [0x0A, 0x0A] @ str ''[Truncated transcript]''
                      else transcriptText)
         in case gemini e shown of
              Inl m \<Rightarrow>
                (updateProgress jobId ''summary'' 100
                   ''Could not generate summary (Gemini error)'' s1, None)
            | Inr summaryText \<Rightarrow>
                if summaryText = [] then
                  (updateProgress jobId ''summary'' 100
                     ''Summary skipped (no response from Gemini)'' s1, None)
                else
                  (let s2 = updateProgress jobId ''summary'' 90 ''Sending summary via email...'' s1;
                       s3 = updateProgress jobId ''summary'' 100 ''Summary sent to email'' s2
                   in (s3, Some (js_trim summaryText)))))"

section \<open>POST /api/transcript\<close>

text \<open>
  An early return of the handler after it reported a failure itself: the \<open>error\<close> step at
  100 and \<open>complete = true\<close>.
\<close>

definition reportAndStop :: "jobId \<Rightarrow> string \<Rightarrow> 'a option io" where
  "reportAndStop jobId message =
     bind (exec (updateProgress jobId ''error'' 100 message)) (\<lambda>_.
     bind (setProperty jobId ''complete'' (Flag True)) (\<lambda>_.
     ret None))"

text \<open>Step 2: the feed address, given or searched for. \<open>None\<close>: the handler returned.\<close>

definition resolveRss :: "env \<Rightarrow> jobId \<Rightarrow> spotifyData \<Rightarrow> string option io" where
  "resolveRss e jobId sd =
     (case providedRssUrl e of
        None \<Rightarrow>
          bind (exec (updateProgress jobId ''rss'' 0 ''Finding RSS feed...'')) (\<lambda>_.
          (case findRssFeed e (subtitle sd) of
             None \<Rightarrow>
               reportAndStop jobId
                 (''Unable to find RSS feed for '' @ [CHR 0x22] @ subtitle sd @ [CHR 0x22] @
                  ''. This podcast may not be available in Apple Podcasts or Podcast Index directories.'')
           | Some rssUrl \<Rightarrow>
               bind (exec (updateProgress jobId ''rss'' 100 ''RSS feed found'')) (\<lambda>_.
               ret (Some rssUrl))))
      | Some rssUrl \<Rightarrow>
          bind (exec (updateProgress jobId ''rss'' 100 ''Using provided RSS feed'')) (\<lambda>_.
          ret (Some rssUrl)))"

text \<open>
  Steps 1 to 4, while \<open>tempFilePath\<close> is still null: metadata, feed, episode, download.
  The result is the chosen episode with what the download gave (the downloaded file, or
  \<open>None\<close> when the handler waits for the download for good), or \<open>None\<close> when the handler
  returned early.
\<close>

definition fetchEpisode ::
  "env \<Rightarrow> jobId \<Rightarrow> string \<Rightarrow> (episode \<times> path option) option io" where
  "fetchEpisode e jobId url =
     bind (exec (updateProgress jobId ''metadata'' 0 ''Fetching Spotify metadata...'')) (\<lambda>_.
     bind (\<lambda>s. (s, getData e url)) (\<lambda>spotifyData.
     (case spotifyData of
        None \<Rightarrow> reportAndStop jobId ''Could not fetch episode data from Spotify''
      | Some sd \<Rightarrow>
          bind (exec (updateProgress jobId ''metadata'' 100 ''Metadata fetched'')) (\<lambda>_.
          bind (resolveRss e jobId sd) (\<lambda>rss.
          (case rss of
             None \<Rightarrow> ret None
           | Some rssUrl \<Rightarrow>
               bind (exec (updateProgress jobId ''parse'' 0 ''Parsing RSS feed...'')) (\<lambda>_.
               bind (\<lambda>s. (s, selectEpisode e rssUrl)) (\<lambda>targetEpisode.
               (case enclosureUrl targetEpisode of
                  None \<Rightarrow> reportAndStop jobId ''No audio URL found for this episode''
                | Some audioUrl \<Rightarrow>
                    bind (exec (updateProgress jobId ''parse'' 100 ''RSS parsed successfully'')) (\<lambda>_.
                    bind (extractEpisodeId e url) (\<lambda>episodeId.
                    bind (downloadAudio e audioUrl episodeId jobId) (\<lambda>tempFilePath.
                    ret (Some (targetEpisode, tempFilePath))))))))))))))"

text \<open>Steps 5 and 6, while \<open>tempFilePath\<close> names the download.\<close>

definition transcribeAndSummarise ::
  "env \<Rightarrow> jobId \<Rightarrow> episode \<Rightarrow> path \<Rightarrow> (jsstring \<times> jsstring option) io" where
  "transcribeAndSummarise e jobId targetEpisode tempFilePath =
     bind (processTranscription e tempFilePath jobId) (\<lambda>transcriptText.
     (\<lambda>s. case summariseWithGemini e transcriptText (title targetEpisode) jobId s of
             (s', summaryText) \<Rightarrow> (s', Inr (transcriptText, summaryText))))"

text \<open>Step 8, after the download was deleted and \<open>tempFilePath\<close> reset to null.\<close>

definition storeResult :: "jobId \<Rightarrow> episode \<Rightarrow> jsstring \<Rightarrow> jsstring option \<Rightarrow> unit io" where
  "storeResult jobId targetEpisode transcriptText summaryText =
     (let r = \<lparr>episodeTitle = title targetEpisode,
                episodePublished = pubDate targetEpisode,
                episodeDuration = itunesDuration targetEpisode,
                transcript = transcriptText,
                summary = summaryText\<rparr>
      in bind (exec (updateProgress jobId ''complete'' 100 ''Transcription complete!'')) (\<lambda>_.
         bind (setProperty jobId ''result'' (Outcome r)) (\<lambda>_.
         setProperty jobId ''complete'' (Flag True))))"

text \<open>
  The \<open>catch\<close> block. Its last statement reads \<open>spotifyData\<close>, a constant declared inside the
  \<open>try\<close> block and not in scope here, so the block ends with a ReferenceError.
\<close>

datatype response = BadRequest | Started

definition catchBlock :: "jobId \<Rightarrow> path option \<Rightarrow> string \<Rightarrow> response io" where
  "catchBlock jobId tempFilePath message =
     bind (exec (case tempFilePath of Some p \<Rightarrow> cleanupFile p | None \<Rightarrow> (\<lambda>s. s))) (\<lambda>_.
     bind (exec (updateProgress jobId ''error'' 100
                  (if message = [] then ''An error occurred'' else message))) (\<lambda>_.
     bind (setProperty jobId ''complete'' (Flag True)) (\<lambda>_.
     throw ''spotifyData is not defined'')))"

text \<open>
  The \<open>try\<close> block. When it throws, the exception comes with the value \<open>tempFilePath\<close>
  has at that moment: null before the download returned and after the download was
  deleted, the downloaded file in between. When the download is never settled the
  block runs no further: nothing after the \<open>await\<close> happens, and nothing is thrown.
\<close>

definition tryBlock ::
  "env \<Rightarrow> jobId \<Rightarrow> string \<Rightarrow> server \<Rightarrow> server \<times> ((string \<times> path option) + unit)" where
  "tryBlock e jobId url s =
     (case fetchEpisode e jobId url s of
        (s1, Inl err) \<Rightarrow> (s1, Inl (err, None))
      | (s1, Inr None) \<Rightarrow> (s1, Inr ())
      | (s1, Inr (Some (targetEpisode, None))) \<Rightarrow> (s1, Inr ())
      | (s1, Inr (Some (targetEpisode, Some tempFilePath))) \<Rightarrow>
          (case transcribeAndSummarise e jobId targetEpisode tempFilePath s1 of
             (s2, Inl err) \<Rightarrow> (s2, Inl (err, Some tempFilePath))
           | (s2, Inr (transcriptText, summaryText)) \<Rightarrow>
               (case storeResult jobId targetEpisode transcriptText summaryText
                       (cleanupFile tempFilePath s2) of
                  (s3, Inl err) \<Rightarrow> (s3, Inl (err, None))
                | (s3, Inr _) \<Rightarrow> (s3, Inr ()))))"

text \<open>
  The handler: without a \<open>spotifyUrl\<close> it answers 400 and starts nothing; otherwise it
  answers with the job id and runs the \<open>try\<close> block, and the \<open>catch\<close> block on an
  exception. A run of the handler is modelled from start to end without other requests
  in between; a job only ever writes its own entry of the job table and its own files.
\<close>

definition postTranscript :: "env \<Rightarrow> jobId \<Rightarrow> response io" where
  "postTranscript e jobId s =
     (case spotifyUrl e of
        None \<Rightarrow> (s, Inr BadRequest)
      | Some url \<Rightarrow>
          (case tryBlock e jobId url s of
             (s1, Inl (err, tempFilePath)) \<Rightarrow> catchBlock jobId tempFilePath err s1
           | (s1, Inr _) \<Rightarrow> (s1, Inr Started)))"

section \<open>GET /api/result and its timers\<close>

text \<open>JavaScript truthiness of a property of the progress object.\<close>

definition truthy :: "pvalue option \<Rightarrow> bool" where
  "truthy v = (case v of None \<Rightarrow> False | Some (Flag b) \<Rightarrow> b | Some _ \<Rightarrow> True)"

datatype resultResponse =
  NotFound
| Ok200 "pvalue option"
| Failed500 "pvalue option"
| Pending202

definition getResult :: "jobId \<Rightarrow> server \<Rightarrow> server \<times> resultResponse" where
  "getResult jobId s =
     (case progressStore s jobId of
        None \<Rightarrow> (s, NotFound)
      | Some progress \<Rightarrow>
          if truthy (progress ''result'') then
            (s\<lparr>timers := timers s @ [(clock s + 60000, jobId)]\<rparr>, Ok200 (progress ''result''))
          else if truthy (progress ''error'') then (s, Failed500 (progress ''error''))
          else (s, Pending202))"

text \<open>
  Time passes by \<open>dt\<close> ms: every timer that is due by then runs
  \<open>progressStore.delete(jobId)\<close> and is gone.
\<close>

definition elapse :: "nat \<Rightarrow> server \<Rightarrow> server" where
  "elapse dt s =
     (let now = clock s + dt;
          due = filter (\<lambda>(t, j). t \<le> now) (timers s)
      in s\<lparr>progressStore := fold (\<lambda>(t, j) store. store(j := None)) due (progressStore s),
           timers := filter (\<lambda>(t, j). \<not> t \<le> now) (timers s),
           clock := now\<rparr>)"

text \<open>What can happen to the job table once a job is over: result requests and time.\<close>

datatype event = GetResult jobId | Elapse nat

fun happen :: "event \<Rightarrow> server \<Rightarrow> server" where
  "happen (GetResult j) s = fst (getResult j s)"
| "happen (Elapse dt) s = elapse dt s"

definition after :: "event list \<Rightarrow> server \<Rightarrow> server" where
  "after evs s = fold happen evs s"

text \<open>The time that passes during a list of events, in ms.\<close>

definition elapsed :: "event list \<Rightarrow> nat" where
  "elapsed evs = sum_list (map (\<lambda>ev. case ev of GetResult k \<Rightarrow> 0 | Elapse dt \<Rightarrow> dt) evs)"

section \<open>Reading the progress log\<close>

definition percentages :: "jobId \<Rightarrow> string \<Rightarrow> (jobId \<times> string \<times> int \<times> string) list \<Rightarrow> int list" where
  "percentages jobId step lg =
     map (\<lambda>(j, st, p, m). p) (filter (\<lambda>(j, st, p, m). j = jobId \<and> st = step) lg)"

definition emptyServer :: server where
  "emptyServer = \<lparr>progressStore = Map.empty, progressLog = [], files = Map.empty,
                   ffmpegLog = [], timers = [], clock = 0\<rparr>"

text \<open>A property of a job's progress object, if the job has one.\<close>

definition jobField :: "server \<Rightarrow> jobId \<Rightarrow> string \<Rightarrow> pvalue option" where
  "jobField s jobId key = (case progressStore s jobId of None \<Rightarrow> None | Some p \<Rightarrow> p key)"

section \<open>The order of the progress log\<close>

text \<open>
  The steps of a job come in a fixed order, and within a step the percentages climb; only
  \<open>transcribe\<close> starts again from 0 for every chunk. An entry's key is its step's rank
  times 101 plus its percentage, where the percentage of a \<open>transcribe\<close> entry counts as
  0. A list of entries is ordered between \<open>a\<close> and \<open>b\<close> when it belongs to the job, its
  percentages are between 0 and 100, and its keys are sorted and lie between \<open>a\<close> and
  \<open>b\<close>. The percentages of \<open>download\<close> come from the transport's progress events; unless
  \<open>strict\<close> is set they are not looked at.
\<close>

type_synonym logEntry = "jobId \<times> string \<times> int \<times> string"

definition stepRank :: "string \<Rightarrow> int" where
  "stepRank st =
     (if st = ''metadata'' then 0 else if st = ''rss'' then 1 else if st = ''parse'' then 2
      else if st = ''download'' then 3 else if st = ''compress'' then 4
      else if st = ''splitting'' then 5 else if st = ''transcribe'' then 6
      else if st = ''merge'' then 7 else if st = ''summary'' then 8
      else if st = ''complete'' then 9 else 10)"

definition logKey :: "bool \<Rightarrow> logEntry \<Rightarrow> int" where
  "logKey strict ev =
     (case ev of (k, st, p, m) \<Rightarrow>
        stepRank st * 101 +
        (if st = ''transcribe'' \<or> (st = ''download'' \<and> \<not> strict) then 0 else p))"

definition inRange :: "bool \<Rightarrow> logEntry \<Rightarrow> bool" where
  "inRange strict ev =
     (case ev of (k, st, p, m) \<Rightarrow> (st = ''download'' \<and> \<not> strict) \<or> (0 \<le> p \<and> p \<le> 100))"

definition ordered :: "bool \<Rightarrow> jobId \<Rightarrow> int \<Rightarrow> int \<Rightarrow> logEntry list \<Rightarrow> bool" where
  "ordered strict j a b L \<longleftrightarrow>
     sorted (map (logKey strict) L) \<and>
     list_all (\<lambda>ev. fst ev = j \<and> inRange strict ev \<and> a \<le> logKey strict ev \<and> logKey strict ev \<le> b) L"

definition newEntries :: "server \<Rightarrow> server \<Rightarrow> logEntry list" where
  "newEntries s s' = drop (length (progressLog s)) (progressLog s')"

definition emits :: "bool \<Rightarrow> jobId \<Rightarrow> int \<Rightarrow> int \<Rightarrow> 'a io \<Rightarrow> bool" where
  "emits strict j a b m \<longleftrightarrow>
     (\<forall>s. progressLog (fst (m s)) = progressLog s @ newEntries s (fst (m s)) \<and>
          ordered strict j a b (newEntries s (fst (m s))))"



section \<open>How a job ends\<close>






section \<open>Example inputs\<close>

text \<open>Two transcripts; the second starts with a space, as speech-to-text output does.\<close>

definition firstTranscript :: transcription where
  "firstTranscript = \<lparr>text = str ''a''\<rparr>"

definition secondTranscript :: transcription where
  "secondTranscript =
     \<lparr>text = str '' 1 2 3 4 5 6 7 8 9 10 11 12 13 14 15 16 17 18 19 20 21''\<rparr>"

definition paddedTranscript :: transcription where
  "paddedTranscript = \<lparr>text = str '' a ''\<rparr>"

definition shortTranscript :: transcription where
  "shortTranscript = \<lparr>text = str ''only five words in here''\<rparr>"

text \<open>Transcripts that carry a segment index next to their text; index 1 is missing.\<close>

record indexedTranscription = transcription +
  segmentIndex :: nat

definition gappedTranscripts :: "indexedTranscription list" where
  "gappedTranscripts =
     [\<lparr>text = str ''alpha'', segmentIndex = 0\<rparr>, \<lparr>text = str ''gamma'', segmentIndex = 2\<rparr>]"

definition plainTranscripts :: "transcription list" where
  "plainTranscripts = [\<lparr>text = str ''alpha''\<rparr>, \<lparr>text = str ''gamma''\<rparr>]"

text \<open>
  A job whose download is 30 MB of 20 minutes of audio: over the limit, so it is split
  into two chunks. Every outside call succeeds.
\<close>

definition exampleEpisode :: episode where
  "exampleEpisode = \<lparr>title = ''Episode 1'', pubDate = ''2024-01-01'', itunesDuration = ''20:00'',
     enclosureUrl = Some ''https://cdn.example/ep1.mp3''\<rparr>"

definition chunkedEnv :: env where
  "chunkedEnv = \<lparr>spotifyUrl = Some ''https://open.spotify.com/episode/abc'',
     providedRssUrl = None,
     getData = (\<lambda>_. Inr (Some \<lparr>name = ''Episode 1'', subtitle = ''Show''\<rparr>)),
     findRssFeed = (\<lambda>_. Some ''https://feed.example/rss''),
     selectEpisode = (\<lambda>_. Inr exampleEpisode),
     episodeIdMatch = (\<lambda>_. Some ''abc''),
     dateNow = 7,
     fetchAudio = (\<lambda>_. Streams [(15728640, 31457280)] 31457280 None),
     ffprobe = (\<lambda>_. Inr 1200),
     ffmpeg = (\<lambda>_. Inr 4000000),
     execCompress = (\<lambda>_ _. Inr 8000000),
     groq = (\<lambda>_. Inr \<lparr>text = str ''hello''\<rparr>),
     geminiKey = False,
     gemini = (\<lambda>_. Inr [])\<rparr>"

text \<open>The same job with 30 minutes of audio: three chunks.\<close>

definition threeChunkEnv :: env where
  "threeChunkEnv = chunkedEnv\<lparr>ffprobe := (\<lambda>_. Inr 1800)\<rparr>"


text \<open>The same job when the speech-to-text service rejects every call.\<close>

definition failingTranscriptionEnv :: env where
  "failingTranscriptionEnv = chunkedEnv\<lparr>groq := (\<lambda>_. Inl ''rate limit'')\<rparr>"

text \<open>The same job when the metadata lookup finds no episode.\<close>

definition missingEpisodeEnv :: env where
  "missingEpisodeEnv = chunkedEnv\<lparr>getData := (\<lambda>_. Inr None)\<rparr>"


text \<open>A 10 MB download whose compression command fails.\<close>

definition failingCompressionEnv :: env where
  "failingCompressionEnv =
     chunkedEnv\<lparr>fetchAudio := (\<lambda>_. Streams [] 10485760 None),
                 execCompress := (\<lambda>_ _. Inl ''ffmpeg: command not found'')\<rparr>"

text \<open>The job table and the files after the first job ran to its end, and after the second.\<close>

definition completedServer :: server where
  "completedServer = fst (postTranscript chunkedEnv ''job1'' emptyServer)"


text \<open>After the job that found no episode: the handler reported the failure and returned.\<close>

definition rejectedServer :: server where
  "rejectedServer = fst (postTranscript missingEpisodeEnv ''job1'' emptyServer)"


text \<open>The last job again, with a summariser that is configured and rejects the call.\<close>

definition failingSummaryEnv :: env where
  "failingSummaryEnv =
     failingCompressionEnv\<lparr>geminiKey := True, gemini := (\<lambda>_. Inl ''quota exceeded'')\<rparr>"

definition unsummarisedServer :: server where
  "unsummarisedServer = fst (postTranscript failingSummaryEnv ''job1'' emptyServer)"


section \<open>Evaluation rules\<close>

lemma show_nat_digit: "n < 10 \<Longrightarrow> show_nat n = [digit n]"
  by (simp add: show_nat.simps)

lemma show_nat_more:
  "\<not> n < 10 \<Longrightarrow> show_nat n = show_nat (n div 10) @ [digit (n mod 10)]"
  by (subst show_nat.simps) simp

lemma upt_0_2: "[0..<2] = [0, 1]"
  by (simp add: upt_rec)

lemmas io_defs = bind_def exec_def ret_def throw_def

lemmas show_defs = show_nat_digit show_nat_more show_int_def digit_def

lemmas job_defs = postTranscript_def tryBlock_def fetchEpisode_def resolveRss_def extractEpisodeId_def
  downloadAudio_def downloadEvent_def TEMP_DIR_def transcribeAndSummarise_def
  processTranscription_def getFileSizeMB_def reportAndStop_def MAX_FILE_SIZE_MB_def
  transcribeChunks_def transcribeChunk_def transcribeWithGroq_def catchBlock_def cleanupFile_def
  setProperty_def compressAudio_def cleanupCompressed_def mergeChunks_def
  summariseWithGemini_def storeResult_def

lemmas split_defs = splitAudioIntoChunks_def splitStep_def chunkRun_def getAudioDuration_def
  writeFile_def updateProgress_def jsRound_def
  CHUNK_DURATION_SECONDS_def CHUNK_OVERLAP_SECONDS_def

lemmas eval_defs = io_defs split_defs show_defs upt_0_2 job_defs chunkedEnv_def
  failingTranscriptionEnv_def failingCompressionEnv_def emptyServer_def Let_def exampleEpisode_def
  jobField_def floor_eq_iff


section \<open>Properties of the merge\<close>

lemma overlapWords_eq: "overlapWords = 20"
  by (simp add: overlapWords_def CHUNK_OVERLAP_SECONDS_def)

lemma mergeLoop_Suc:
  "mergeLoop (Suc i) acc ts =
     acc @ concat (map (\<lambda>t. [space] @ js_join [space] (drop 20 (js_split space (text t)))) ts)"
  by (induction ts arbitrary: i acc) (simp_all add: mergeStep_def js_slice_def overlapWords_eq)

lemma mergeTranscriptions_closed:
  assumes "1 < length ts"
  shows "mergeTranscriptions ts =
     js_trim (text (hd ts) @
       concat (map (\<lambda>t. [space] @ js_join [space] (drop 20 (js_split space (text t)))) (tl ts)))"
proof -
  from assms obtain t rest where ts: "ts = t # rest" and "rest \<noteq> []"
    by (cases ts) auto
  then show ?thesis
    by (simp add: mergeTranscriptions_def mergeLoop_Suc mergeStep_def)
qed

lemma mergeLoop_texts:
  "map text ts = map text ts' \<Longrightarrow> mergeLoop i acc ts = mergeLoop i acc ts'"
proof (induction ts arbitrary: ts' i acc)
  case Nil
  then show ?case by simp
next
  case (Cons t ts)
  then obtain t' rest' where "ts' = t' # rest'" "text t = text t'" "map text ts = map text rest'"
    by (cases ts') auto
  with Cons.IH show ?case by simp
qed

lemma mergeTranscriptions_texts:
  assumes "map text ts = map text ts'"
  shows "mergeTranscriptions ts = mergeTranscriptions ts'"
proof -
  have len: "length ts = length ts'"
    using assms by (metis length_map)
  have "length ts = 1 \<Longrightarrow> text (ts ! 0) = text (ts' ! 0)"
    using assms len by (metis nth_map zero_less_one)
  then show ?thesis
    using len mergeLoop_texts [OF assms] by (simp add: mergeTranscriptions_def)
qed

text \<open>
  C2, as amended. For a list of more than one transcript the merge is the first text,
  then for each later transcript one space and its text without its first 20 pieces,
  where the pieces are what lies between single space characters (empty pieces
  included) and are joined again by single spaces; the whole is trimmed at both ends.
\<close>

theorem merge_drops_twenty_space_separated_pieces:
  assumes "1 < length ts"
  shows "overlapWords = 20 \<and>
         mergeTranscriptions ts =
           js_trim (text (hd ts) @
             concat (map (\<lambda>t. [space] @ js_join [space]
                                 (js_slice overlapWords (js_split space (text t)))) (tl ts)))"
  using mergeTranscriptions_closed [OF assms] by (simp add: overlapWords_eq js_slice_def)

theorem merge_drops_twenty_space_separated_pieces_witness:
  "1 < length [firstTranscript, secondTranscript] \<and>
   overlapWords = 20 \<and>
   mergeTranscriptions [firstTranscript, secondTranscript] = str ''a 20 21''"
proof -
  have h: "1 < length [firstTranscript, secondTranscript]"
    by simp
  have "js_trim (text (hd [firstTranscript, secondTranscript]) @
          concat (map (\<lambda>t. [space] @ js_join [space]
                              (js_slice overlapWords (js_split space (text t))))
                   (tl [firstTranscript, secondTranscript]))) = str ''a 20 21''"
    by (simp add: firstTranscript_def secondTranscript_def str_def js_split_def js_slice_def
        overlapWords_eq space_def js_trim_def isWhiteSpace_def)
  with merge_drops_twenty_space_separated_pieces [OF h] h show ?thesis
    by metis
qed

text \<open>
  C2 as stated fails: with whitespace-delimited tokens the second transcript would lose
  its 20 words and keep only the last one; the code counts the empty piece before the
  leading space and keeps the 20th word too.
\<close>

theorem merge_whitespace_tokens_counterexample:
  "mergeTranscriptions [firstTranscript, secondTranscript] = str ''a 20 21'' \<and>
   spec_mergeTranscriptions [firstTranscript, secondTranscript] = str ''a 21''"
  by (simp add: mergeTranscriptions_def spec_mergeTranscriptions_def firstTranscript_def
      secondTranscript_def str_def mergeStep_def js_split_def js_slice_def overlapWords_eq
      space_def js_trim_def isWhiteSpace_def whitespaceTokens_def)

text \<open>
  C3, as amended. The merge step reads no segment index and cannot fail: it returns the
  merge of the texts in list order, and two lists with the same texts in the same order
  give the same run, whatever else their transcripts carry.
\<close>

theorem merge_step_reads_only_texts:
  assumes "map text ts = map text ts'"
  shows "snd (mergeChunks j ts s) = Inr (mergeTranscriptions ts) \<and>
         mergeChunks j ts s = mergeChunks j ts' s"
  using mergeTranscriptions_texts [OF assms]
  by (simp add: mergeChunks_def bind_def exec_def ret_def)

theorem merge_step_reads_only_texts_witness:
  "map text gappedTranscripts = map text plainTranscripts \<and>
   snd (mergeChunks ''job1'' gappedTranscripts emptyServer) =
     Inr (mergeTranscriptions gappedTranscripts) \<and>
   mergeChunks ''job1'' gappedTranscripts emptyServer =
     mergeChunks ''job1'' plainTranscripts emptyServer"
proof -
  have h: "map text gappedTranscripts = map text plainTranscripts"
    by (simp add: gappedTranscripts_def plainTranscripts_def)
  show ?thesis
    using h merge_step_reads_only_texts [OF h, of "''job1''" emptyServer] by blast
qed

text \<open>
  C3 as stated fails: transcripts with the index set {0, 2} are merged without any
  error; the merge step returns a text and publishes its 100%.
\<close>

theorem merge_gap_counterexample:
  "map segmentIndex gappedTranscripts = [0, 2] \<and>
   snd (mergeChunks ''job1'' gappedTranscripts emptyServer) = Inr (str ''alpha'') \<and>
   percentages ''job1'' ''merge''
     (progressLog (fst (mergeChunks ''job1'' gappedTranscripts emptyServer))) = [0, 100]"
  by (simp add: gappedTranscripts_def mergeChunks_def bind_def exec_def ret_def
      updateProgress_def emptyServer_def percentages_def mergeTranscriptions_def mergeStep_def
      js_split_def js_slice_def overlapWords_eq space_def js_trim_def isWhiteSpace_def str_def)

text \<open>
  C7, as amended. A single transcript is returned exactly as it is; whitespace at its
  edges stays.
\<close>

theorem merge_single_returns_text:
  "mergeTranscriptions [t] = text t"
  by (simp add: mergeTranscriptions_def)

text \<open>C7 as stated fails where it says the edges are trimmed.\<close>

theorem merge_single_not_trimmed_counterexample:
  "mergeTranscriptions [paddedTranscript] = str '' a '' \<and>
   js_trim (text paddedTranscript) = str ''a''"
  by (simp add: mergeTranscriptions_def paddedTranscript_def str_def js_trim_def
      isWhiteSpace_def)

text \<open>
  C10. In a list of more than one transcript, a transcript at a position after the
  first whose text splits on single spaces into at most 20 pieces adds nothing but its
  separating space: what is left of it after the drop is empty, and the merge is the
  same as if its text were empty.
\<close>

theorem short_transcript_is_discarded:
  assumes "1 < length ts" and "0 < i" and "i < length ts"
    and "length (js_split space (text (ts ! i))) \<le> 20"
  shows "js_join [space] (js_slice overlapWords (js_split space (text (ts ! i)))) = [] \<and>
         mergeTranscriptions ts = mergeTranscriptions (ts[i := (ts ! i)\<lparr>text := []\<rparr>])"
proof -
  let ?f = "\<lambda>t::'a transcription_scheme.
              [space] @ js_join [space] (drop 20 (js_split space (text t)))"
  from assms obtain t rest k where ts: "ts = t # rest" and i: "i = Suc k" and k: "k < length rest"
    by (cases ts; cases i) auto
  have a: "drop 20 (js_split space (text (rest ! k))) = []"
    using assms(4) by (simp add: ts i)
  have b: "drop 20 (js_split space []) = []"
    by (simp add: js_split_def)
  have "?f ((rest ! k)\<lparr>text := []\<rparr>) = ?f (rest ! k)"
    using a b by simp
  then have "map ?f (rest[k := (rest ! k)\<lparr>text := []\<rparr>]) = map ?f rest"
    by (simp add: map_update list_update_same_conv k)
  moreover have "1 < length (ts[i := (ts ! i)\<lparr>text := []\<rparr>])"
    using assms(1) by simp
  ultimately show ?thesis
    using a assms(1) by (simp add: mergeTranscriptions_closed ts i js_slice_def overlapWords_eq)
qed

theorem short_transcript_is_discarded_witness:
  "1 < length [firstTranscript, shortTranscript] \<and> (0::nat) < 1 \<and>
   length (js_split space (text ([firstTranscript, shortTranscript] ! 1))) \<le> 20 \<and>
   mergeTranscriptions [firstTranscript, shortTranscript] =
     mergeTranscriptions [firstTranscript, shortTranscript\<lparr>text := []\<rparr>] \<and>
   mergeTranscriptions [firstTranscript, shortTranscript] = str ''a''"
proof -
  have h1: "1 < length [firstTranscript, shortTranscript]"
    by simp
  have h2: "length (js_split space (text ([firstTranscript, shortTranscript] ! 1))) \<le> 20"
    by (simp add: shortTranscript_def str_def js_split_def space_def)
  have c: "mergeTranscriptions [firstTranscript, shortTranscript\<lparr>text := []\<rparr>] = str ''a''"
    by (simp add: firstTranscript_def shortTranscript_def str_def js_split_def space_def
        mergeTranscriptions_def mergeStep_def js_slice_def overlapWords_eq js_trim_def
        isWhiteSpace_def)
  have "mergeTranscriptions [firstTranscript, shortTranscript] =
        mergeTranscriptions [firstTranscript, shortTranscript\<lparr>text := []\<rparr>]"
    using short_transcript_is_discarded [OF h1 _ _ h2] by simp
  with h1 h2 c show ?thesis
    by simp
qed

section \<open>Chunking\<close>

lemma splitLoop_runs:
  assumes "k \<le> n" and "\<And>i. i < n \<Longrightarrow> ffmpeg e (chunkRun p i) = Inr (w i)"
  shows "snd (forEach [k..<n] (splitStep e p j c) acc s) =
           Inr (acc @ map (\<lambda>i. runOutput (chunkRun p i)) [k..<n]) \<and>
         ffmpegLog (fst (forEach [k..<n] (splitStep e p j c) acc s)) =
           ffmpegLog s @ map (chunkRun p) [k..<n]"
  using assms(1)
proof (induction "n - k" arbitrary: k acc s)
  case 0
  then show ?case by (simp add: ret_def)
next
  case (Suc d)
  then have kn: "k < n" by simp
  obtain s1 where step: "splitStep e p j c k acc s = (s1, Inr (acc @ [runOutput (chunkRun p k)]))"
    and log: "ffmpegLog s1 = ffmpegLog s @ [chunkRun p k]"
    using assms(2) [OF kn]
    by (simp add: splitStep_def Let_def writeFile_def updateProgress_def)
  have IH: "snd (forEach [Suc k..<n] (splitStep e p j c) (acc @ [runOutput (chunkRun p k)]) s1) =
           Inr ((acc @ [runOutput (chunkRun p k)]) @ map (\<lambda>i. runOutput (chunkRun p i)) [Suc k..<n]) \<and>
         ffmpegLog (fst (forEach [Suc k..<n] (splitStep e p j c) (acc @ [runOutput (chunkRun p k)]) s1)) =
           ffmpegLog s1 @ map (chunkRun p) [Suc k..<n]"
    using Suc.hyps(1) [of "Suc k"] Suc.hyps(2) kn by simp
  show ?case
    using kn step log IH by (simp add: upt_conv_Cons bind_def)
qed

lemma later_pairs_share_ten:
  assumes "1 \<le> i" and "i + 1 < nat \<lceil>d / 600\<rceil>"
  shows "sharedSeconds d (chunkRun p i) (chunkRun p (i + 1)) = 10"
proof -
  have "int (i + 1) < \<lceil>d / 600\<rceil>"
    using assms(2) by linarith
  then have "of_int (int (i + 1)) < d / 600"
    by (simp only: less_ceiling_iff)
  then have d: "(of_nat i + 1) * 600 < d"
    by (simp add: pos_less_divide_eq)
  have i: "(1::rat) \<le> of_nat i"
    using assms(1) by simp
  show ?thesis
    using d i
    by (simp add: sharedSeconds_def chunkRun_def CHUNK_DURATION_SECONDS_def
        CHUNK_OVERLAP_SECONDS_def max_def min_def algebra_simps)
qed

text \<open>
  C1, as amended. For an audio of \<open>d\<close> seconds whose ffmpeg runs all succeed, the splitter
  makes ceil(d/600) chunks, in index order; chunk \<open>i\<close> is cut from max(0, 600 i - 10)
  seconds on and asked to span 600 + 10 seconds; and every two consecutive chunks after
  the first chunk share exactly 10 seconds of source audio.
\<close>

theorem chunks_count_windows_and_later_overlaps:
  assumes "ffprobe e p = Inr d"
    and "\<And>i. i < nat \<lceil>d / 600\<rceil> \<Longrightarrow> ffmpeg e (chunkRun p i) = Inr (w i)"
  shows "snd (splitAudioIntoChunks e p j s) =
           Inr (map (\<lambda>i. runOutput (chunkRun p i)) [0..<nat \<lceil>d / 600\<rceil>]) \<and>
         ffmpegLog (fst (splitAudioIntoChunks e p j s)) =
           ffmpegLog s @ map (chunkRun p) [0..<nat \<lceil>d / 600\<rceil>] \<and>
         (\<forall>i. runStartTime (chunkRun p i) = max 0 (of_nat i * 600 - 10) \<and>
              runDuration (chunkRun p i) = 600 + 10) \<and>
         (\<forall>i. 1 \<le> i \<and> i + 1 < nat \<lceil>d / 600\<rceil> \<longrightarrow>
              sharedSeconds d (chunkRun p i) (chunkRun p (i + 1)) = 10)"
proof -
  let ?n = "nat \<lceil>d / 600\<rceil>"
  let ?s1 = "updateProgress j ''splitting'' 0
               (''Splitting into '' @ show_int \<lceil>d / 600\<rceil> @ '' chunks...'') s"
  obtain s2 r where loop: "forEach [0..<?n] (splitStep e p j \<lceil>d / 600\<rceil>) [] ?s1 = (s2, r)"
    by (cases "forEach [0..<?n] (splitStep e p j \<lceil>d / 600\<rceil>) [] ?s1")
  from splitLoop_runs [of 0 ?n e p w j "\<lceil>d / 600\<rceil>" "[]" ?s1] assms(2) loop
  have r: "r = Inr (map (\<lambda>i. runOutput (chunkRun p i)) [0..<?n])"
    and l: "ffmpegLog s2 = ffmpegLog ?s1 @ map (chunkRun p) [0..<?n]"
    by simp_all
  have "splitAudioIntoChunks e p j s =
          (updateProgress j ''splitting'' 100 ''Audio splitting complete'' s2,
           Inr (map (\<lambda>i. runOutput (chunkRun p i)) [0..<?n]))"
    using assms(1) loop r
    by (simp add: splitAudioIntoChunks_def getAudioDuration_def io_defs Let_def
        CHUNK_DURATION_SECONDS_def)
  then show ?thesis
    using l later_pairs_share_ten [of _ d p]
    by (simp add: updateProgress_def chunkRun_def CHUNK_DURATION_SECONDS_def
        CHUNK_OVERLAP_SECONDS_def)
qed

theorem chunks_count_windows_and_later_overlaps_witness:
  "ffprobe threeChunkEnv ''/tmp/abc_7.mp3'' = Inr 1800 \<and>
   nat \<lceil>(1800::rat) / 600\<rceil> = 3 \<and>
   snd (splitAudioIntoChunks threeChunkEnv ''/tmp/abc_7.mp3'' ''job1'' emptyServer) =
     Inr [''/tmp/abc_7_chunk_0.mp3'', ''/tmp/abc_7_chunk_1.mp3'', ''/tmp/abc_7_chunk_2.mp3''] \<and>
   sharedSeconds 1800 (chunkRun ''/tmp/abc_7.mp3'' 1) (chunkRun ''/tmp/abc_7.mp3'' 2) = 10"
proof -
  have h: "ffprobe threeChunkEnv ''/tmp/abc_7.mp3'' = Inr 1800"
    by (simp add: threeChunkEnv_def)
  have g: "ffmpeg threeChunkEnv (chunkRun ''/tmp/abc_7.mp3'' i) = Inr ((\<lambda>_. 4000000) i)" for i
    by (simp add: threeChunkEnv_def chunkedEnv_def)
  have n: "nat \<lceil>(1800::rat) / 600\<rceil> = 3"
    by simp
  have u: "[0..<3] = [0, 1, 2]"
    by (simp add: upt_rec)
  note r = chunks_count_windows_and_later_overlaps [OF h g, of "''job1''" emptyServer]
  from r have "snd (splitAudioIntoChunks threeChunkEnv ''/tmp/abc_7.mp3'' ''job1'' emptyServer) =
     Inr [''/tmp/abc_7_chunk_0.mp3'', ''/tmp/abc_7_chunk_1.mp3'', ''/tmp/abc_7_chunk_2.mp3'']"
    by (simp add: n u chunkRun_def show_defs)
  moreover have "sharedSeconds 1800 (chunkRun ''/tmp/abc_7.mp3'' 1) (chunkRun ''/tmp/abc_7.mp3'' 2) = 10"
    using r [THEN conjunct2, THEN conjunct2, THEN conjunct2, rule_format, of 1]
    by (simp add: n numeral_2_eq_2)
  ultimately show ?thesis
    using h n by simp
qed

text \<open>
  The first two chunks share more: chunk 0 starts at 0 and still spans 610 seconds, chunk
  1 starts at 590.
\<close>

lemma first_pair_shares_more_than_ten:
  assumes "600 < d"
  shows "sharedSeconds d (chunkRun p 0) (chunkRun p 1) = min d 610 - 590 \<and>
         10 < sharedSeconds d (chunkRun p 0) (chunkRun p 1)"
  using assms
  by (simp add: sharedSeconds_def chunkRun_def CHUNK_DURATION_SECONDS_def
      CHUNK_OVERLAP_SECONDS_def max_def min_def)

text \<open>
  C1 as stated fails for the first pair: of a 20-minute audio the splitter makes two
  chunks, from 0 and from 590 seconds, 610 seconds long each, and they share 20 seconds
  of source audio, not 10.
\<close>

theorem first_two_chunks_share_twenty_seconds_counterexample:
  "snd (splitAudioIntoChunks chunkedEnv ''/tmp/abc_7.mp3'' ''job1'' emptyServer) =
     Inr [''/tmp/abc_7_chunk_0.mp3'', ''/tmp/abc_7_chunk_1.mp3''] \<and>
   map (\<lambda>r. (runStartTime r, runDuration r))
     (ffmpegLog (fst (splitAudioIntoChunks chunkedEnv ''/tmp/abc_7.mp3'' ''job1'' emptyServer))) =
     [(0, 610), (590, 610)] \<and>
   sharedSeconds 1200 (chunkRun ''/tmp/abc_7.mp3'' 0) (chunkRun ''/tmp/abc_7.mp3'' 1) = 20"
  by (simp add: io_defs split_defs show_defs upt_0_2 chunkedEnv_def emptyServer_def
      sharedSeconds_def Let_def)

section \<open>Scratch files\<close>

text \<open>
  C5, at a job whose first transcription call fails. The job ends failed (the \<open>error\<close>
  step is published and \<open>complete\<close> is true) and the download is deleted, but both chunk
  files are still in storage: the failed call's own chunk and the chunk not yet reached.
\<close>

theorem chunk_files_stay_after_failed_transcription:
  "jobField (fst (postTranscript failingTranscriptionEnv ''job1'' emptyServer)) ''job1'' ''complete'' =
     Some (Flag True) \<and>
   jobField (fst (postTranscript failingTranscriptionEnv ''job1'' emptyServer)) ''job1'' ''error'' =
     Some (Entry 100 ''rate limit'') \<and>
   map (files (fst (postTranscript failingTranscriptionEnv ''job1'' emptyServer)))
     [''/tmp/abc_7.mp3'', ''/tmp/abc_7_chunk_0.mp3'', ''/tmp/abc_7_chunk_1.mp3''] =
     [None, Some 4000000, Some 4000000]"
  by (simp add: io_defs split_defs show_defs upt_0_2 job_defs chunkedEnv_def
      failingTranscriptionEnv_def emptyServer_def Let_def exampleEpisode_def jobField_def)

section \<open>Compression failure\<close>



section \<open>Eviction from the job table\<close>

lemma fold_delete_other:
  "j \<notin> snd ` set due \<Longrightarrow> fold (\<lambda>(t, k) store. store(k := None)) due m j = m j"
  by (induction due arbitrary: m) (auto split: prod.splits)

lemma fold_delete_None:
  "m j = None \<Longrightarrow> fold (\<lambda>(t, k) store. store(k := None)) due m j = None"
  by (induction due arbitrary: m) (auto split: prod.splits)

lemma fold_delete_member:
  "(t, j) \<in> set due \<Longrightarrow> fold (\<lambda>(t, k) store. store(k := None)) due m j = None"
  by (induction due arbitrary: m) (auto split: prod.splits simp: fold_delete_None)

lemma elapse_keeps:
  assumes "j \<notin> snd ` set (timers s)"
  shows "progressStore (elapse dt s) j = progressStore s j \<and>
         j \<notin> snd ` set (timers (elapse dt s))"
proof -
  have "j \<notin> snd ` set (filter (\<lambda>(t, k). t \<le> clock s + dt) (timers s))"
    using assms by auto
  then show ?thesis
    using assms by (auto simp: elapse_def Let_def fold_delete_other)
qed

lemma getResult_keeps:
  assumes "j \<notin> snd ` set (timers s)"
    and "k \<noteq> j \<or> \<not> truthy (jobField s j ''result'')"
  shows "progressStore (fst (getResult k s)) = progressStore s \<and>
         j \<notin> snd ` set (timers (fst (getResult k s)))"
  using assms by (auto simp: getResult_def jobField_def split: option.splits)

lemma after_keeps_timers:
  assumes "j \<notin> snd ` set (timers s)"
    and "GetResult j \<notin> set evs \<or> \<not> truthy (jobField s j ''result'')"
  shows "progressStore (after evs s) j = progressStore s j \<and>
         j \<notin> snd ` set (timers (after evs s))"
  using assms
proof (induction evs arbitrary: s)
  case Nil
  then show ?case by (simp add: after_def)
next
  case (Cons ev evs)
  have step: "progressStore (happen ev s) j = progressStore s j \<and>
              j \<notin> snd ` set (timers (happen ev s))"
  proof (cases ev)
    case (GetResult k)
    with Cons.prems show ?thesis
      using getResult_keeps [of j s k] by auto
  next
    case (Elapse dt)
    with Cons.prems show ?thesis
      using elapse_keeps [of j s dt] by simp
  qed
  then have "jobField (happen ev s) j ''result'' = jobField s j ''result''"
    by (simp add: jobField_def)
  with Cons.prems step
  have "progressStore (after evs (happen ev s)) j = progressStore (happen ev s) j \<and>
        j \<notin> snd ` set (timers (after evs (happen ev s)))"
    by (intro Cons.IH) auto
  with step show ?case by (simp add: after_def)
qed

lemma gone_stays:
  assumes "progressStore s j = None"
  shows "progressStore (after evs s) j = None"
  using assms
proof (induction evs arbitrary: s)
  case Nil
  then show ?case by (simp add: after_def)
next
  case (Cons ev evs)
  have "progressStore (happen ev s) j = None"
  proof (cases ev)
    case (GetResult k)
    then show ?thesis
      using Cons.prems by (simp add: getResult_def split: option.splits)
  next
    case (Elapse dt)
    then show ?thesis
      using Cons.prems by (simp add: elapse_def Let_def fold_delete_None)
  qed
  from Cons.IH [OF this] show ?case by (simp add: after_def)
qed

lemma pending_eviction:
  assumes "(T, j) \<in> set (timers s)"
    and "\<forall>(t, k) \<in> set (timers s). k = j \<longrightarrow> T \<le> t"
    and "clock s < T" and "T \<le> clock s + 60000"
  shows "progressStore (after evs s) j =
           (if T \<le> clock s + elapsed evs then None else progressStore s j)"
  using assms
proof (induction evs arbitrary: s)
  case Nil
  then show ?case by (simp add: after_def elapsed_def)
next
  case (Cons ev evs)
  show ?case
  proof (cases ev)
    case (GetResult k)
    let ?s = "fst (getResult k s)"
    have st: "progressStore ?s = progressStore s" "clock ?s = clock s"
      by (auto simp: getResult_def split: option.splits)
    have tm: "(T, j) \<in> set (timers ?s)"
      "\<forall>(t, k) \<in> set (timers ?s). k = j \<longrightarrow> T \<le> t"
      using Cons.prems by (auto simp: getResult_def split: option.splits)
    from Cons.IH [OF tm] Cons.prems(3,4) st
    have "progressStore (after evs ?s) j =
            (if T \<le> clock s + elapsed evs then None else progressStore s j)"
      by simp
    then show ?thesis
      using GetResult by (simp add: after_def elapsed_def)
  next
    case (Elapse dt)
    show ?thesis
    proof (cases "T \<le> clock s + dt")
      case True
      have "(T, j) \<in> set (filter (\<lambda>(t, k). t \<le> clock s + dt) (timers s))"
        using Cons.prems(1) True by simp
      from fold_delete_member [OF this]
      have "progressStore (elapse dt s) j = None"
        by (simp add: elapse_def Let_def)
      from gone_stays [OF this, of evs] True show ?thesis
        using Elapse by (simp add: after_def elapsed_def)
    next
      case False
      let ?s = "elapse dt s"
      have "j \<notin> snd ` set (filter (\<lambda>(t, k). t \<le> clock s + dt) (timers s))"
        using Cons.prems(2) False by fastforce
      then have keep: "progressStore ?s j = progressStore s j"
        by (simp add: elapse_def Let_def fold_delete_other)
      have ck: "clock ?s = clock s + dt"
        by (simp add: elapse_def Let_def)
      have tm: "(T, j) \<in> set (timers ?s)"
        "\<forall>(t, k) \<in> set (timers ?s). k = j \<longrightarrow> T \<le> t"
        using Cons.prems(1,2) False by (auto simp: elapse_def Let_def)
      have "clock ?s < T" "T \<le> clock ?s + 60000"
        using False Cons.prems(4) ck by simp_all
      from Cons.IH [OF tm this] keep ck
      have "progressStore (after evs ?s) j =
              (if T \<le> clock s + dt + elapsed evs then None else progressStore s j)"
        by simp
      then show ?thesis
        using Elapse by (simp add: after_def elapsed_def)
    qed
  qed
qed

lemma fetched_then_evicted_after:
  assumes nt: "j \<notin> snd ` set (timers s)"
    and res: "truthy (jobField s j ''result'')"
    and q: "GetResult j \<notin> set quiet"
  shows "snd (getResult j (after quiet s)) = Ok200 (jobField s j ''result'') \<and>
         progressStore (after (quiet @ GetResult j # later) s) j =
           (if 60000 \<le> elapsed later then None else progressStore s j)"
proof -
  let ?q = "after quiet s"
  from after_keeps_timers [OF nt, of quiet] q
  have k: "progressStore ?q j = progressStore s j" "j \<notin> snd ` set (timers ?q)"
    by simp_all
  from res k(1) obtain p where p: "progressStore ?q j = Some p" "truthy (p ''result'')"
    "jobField s j ''result'' = p ''result''"
    by (auto simp: jobField_def truthy_def split: option.splits)
  let ?f = "fst (getResult j ?q)"
  have f: "?f = ?q\<lparr>timers := timers ?q @ [(clock ?q + 60000, j)]\<rparr>"
    and r: "snd (getResult j ?q) = Ok200 (jobField s j ''result'')"
    using p by (simp_all add: getResult_def)
  have tm: "(clock ?f + 60000, j) \<in> set (timers ?f)"
    "\<forall>(t, k) \<in> set (timers ?f). k = j \<longrightarrow> clock ?f + 60000 \<le> t"
    using k(2) by (force simp: f)+
  from pending_eviction [OF tm, of later]
  have "progressStore (after later ?f) j =
          (if 60000 \<le> elapsed later then None else progressStore ?f j)"
    by simp
  moreover have "progressStore ?f j = progressStore s j"
    using k(1) by (simp add: f)
  moreover have "after (quiet @ GetResult j # later) s = after later ?f"
    by (simp add: after_def)
  ultimately show ?thesis
    using r by simp
qed

lemma jobField_after:
  "progressStore s' j = progressStore s j \<Longrightarrow> jobField s' j key = jobField s j key"
  by (simp add: jobField_def)

lemma completedServer_facts:
  "timers completedServer = [] \<and>
   jobField completedServer ''job1'' ''complete'' = Some (Flag True) \<and>
   truthy (jobField completedServer ''job1'' ''result'')"
  by (simp add: completedServer_def io_defs split_defs show_defs upt_0_2 job_defs chunkedEnv_def
      emptyServer_def Let_def exampleEpisode_def jobField_def truthy_def)

lemma rejectedServer_facts:
  "timers rejectedServer = [] \<and>
   snd (postTranscript missingEpisodeEnv ''job1'' emptyServer) = Inr Started \<and>
   jobField rejectedServer ''job1'' ''complete'' = Some (Flag True) \<and>
   jobField rejectedServer ''job1'' ''result'' = None \<and>
   jobField rejectedServer ''job1'' ''error'' =
     Some (Entry 100 ''Could not fetch episode data from Spotify'')"
  by (simp add: rejectedServer_def missingEpisodeEnv_def io_defs job_defs chunkedEnv_def
      updateProgress_def emptyServer_def Let_def jobField_def)

text \<open>
  C9, as amended. The only eviction is the timer that a result request starts when the
  job holds a result. For a job with no eviction pending: no sequence of result requests
  and passing time removes or changes its entry unless the job holds a result and its
  result is requested, so a finished job that is never fetched, and a job without a
  result, stay in the table. When the job holds a result, its first result request
  answers with the result and leaves the entry as it is; through whatever requests
  follow, the entry stays unchanged while less than 60 seconds have passed since that
  request, and is gone once 60 seconds have passed.
\<close>

theorem eviction_only_after_result_fetch:
  assumes "j \<notin> snd ` set (timers s)"
  shows "(GetResult j \<notin> set evs \<or> \<not> truthy (jobField s j ''result'') \<longrightarrow>
            progressStore (after evs s) j = progressStore s j) \<and>
         (truthy (jobField s j ''result'') \<and> GetResult j \<notin> set quiet \<longrightarrow>
            snd (getResult j (after quiet s)) = Ok200 (jobField s j ''result'') \<and>
            progressStore (after (quiet @ GetResult j # later) s) j =
              (if 60000 \<le> elapsed later then None else progressStore s j))"
  using after_keeps_timers [OF assms, of evs] fetched_then_evicted_after [OF assms, of quiet later]
  by blast


theorem eviction_only_after_result_fetch_witness:
  "''job1'' \<notin> snd ` set (timers completedServer) \<and>
   truthy (jobField completedServer ''job1'' ''result'') \<and>
   progressStore completedServer ''job1'' \<noteq> None \<and>
   GetResult ''job1'' \<notin> set [GetResult ''job2'', Elapse 86400000] \<and>
   progressStore (after [GetResult ''job2'', Elapse 86400000] completedServer) ''job1'' =
     progressStore completedServer ''job1'' \<and>
   elapsed [Elapse 59999] = 59999 \<and>
   progressStore (after ([GetResult ''job2'', Elapse 86400000] @
                         GetResult ''job1'' # [Elapse 59999]) completedServer) ''job1'' =
     progressStore completedServer ''job1'' \<and>
   elapsed [Elapse 30000, GetResult ''job1'', Elapse 30000] = 60000 \<and>
   progressStore (after ([GetResult ''job2'', Elapse 86400000] @
                         GetResult ''job1'' # [Elapse 30000, GetResult ''job1'', Elapse 30000])
                    completedServer) ''job1'' = None"
proof -
  let ?quiet = "[GetResult ''job2'', Elapse 86400000]"
  have h: "''job1'' \<notin> snd ` set (timers completedServer)"
    using completedServer_facts by simp
  have q: "GetResult ''job1'' \<notin> set ?quiet"
    by simp
  have r: "truthy (jobField completedServer ''job1'' ''result'')"
    using completedServer_facts by simp
  then have p: "progressStore completedServer ''job1'' \<noteq> None"
    by (auto simp: jobField_def truthy_def split: option.splits)
  note T = eviction_only_after_result_fetch [OF h]
  have a: "progressStore (after ?quiet completedServer) ''job1'' =
           progressStore completedServer ''job1''"
    using T [of ?quiet] q by blast
  have e1: "elapsed [Elapse 59999] = 59999"
    and e2: "elapsed [Elapse 30000, GetResult ''job1'', Elapse 30000] = 60000"
    by (simp_all add: elapsed_def)
  have b: "progressStore (after (?quiet @ GetResult ''job1'' # [Elapse 59999]) completedServer)
             ''job1'' = progressStore completedServer ''job1''"
    using T [of _ ?quiet "[Elapse 59999]"] q r by (simp only: e1) simp
  have c: "progressStore (after (?quiet @ GetResult ''job1'' #
               [Elapse 30000, GetResult ''job1'', Elapse 30000]) completedServer) ''job1'' = None"
    using T [of _ ?quiet "[Elapse 30000, GetResult ''job1'', Elapse 30000]"] q r
    by (simp only: e2) simp
  from h r p q a e1 b e2 c show ?thesis
    by blast
qed

text \<open>
  C9 as stated fails: a job that finished and is never fetched is still in the table a
  day later, and so is a failed job whose result was requested.
\<close>

theorem no_eviction_without_fetch_counterexample:
  "jobField completedServer ''job1'' ''complete'' = Some (Flag True) \<and>
   jobField (after [Elapse 86400000] completedServer) ''job1'' ''complete'' = Some (Flag True) \<and>
   snd (postTranscript missingEpisodeEnv ''job1'' emptyServer) = Inr Started \<and>
   jobField rejectedServer ''job1'' ''complete'' = Some (Flag True) \<and>
   jobField rejectedServer ''job1'' ''error'' =
     Some (Entry 100 ''Could not fetch episode data from Spotify'') \<and>
   jobField (after [GetResult ''job1'', Elapse 86400000] rejectedServer) ''job1'' ''complete'' =
     Some (Flag True)"
proof -
  have a: "progressStore (after [Elapse 86400000] completedServer) ''job1'' =
           progressStore completedServer ''job1''"
    using completedServer_facts after_keeps_timers [of "''job1''" completedServer "[Elapse 86400000]"]
    by simp
  have b: "progressStore (after [GetResult ''job1'', Elapse 86400000] rejectedServer) ''job1'' =
           progressStore rejectedServer ''job1''"
    using rejectedServer_facts
      after_keeps_timers [of "''job1''" rejectedServer "[GetResult ''job1'', Elapse 86400000]"]
    by (simp add: truthy_def)
  show ?thesis
    using completedServer_facts rejectedServer_facts jobField_after [OF a] jobField_after [OF b]
    by simp
qed

section \<open>The progress log of a job\<close>

lemma ordered_Nil [simp]: "ordered strict j a b []"
  by (simp add: ordered_def)



lemma ordered_single:
  "inRange strict (j, st, p, m) \<Longrightarrow> k = logKey strict (j, st, p, m) \<Longrightarrow>
   ordered strict j k k [(j, st, p, m)]"
  by (simp add: ordered_def)

lemma emitsI:
  assumes "\<And>s. \<exists>L. progressLog (fst (m s)) = progressLog s @ L \<and> ordered strict j a b L"
  shows "emits strict j a b m"
  unfolding emits_def newEntries_def
proof
  fix s
  from assms obtain L where "progressLog (fst (m s)) = progressLog s @ L" "ordered strict j a b L"
    by blast
  then show "progressLog (fst (m s)) =
          progressLog s @ drop (length (progressLog s)) (progressLog (fst (m s))) \<and>
        ordered strict j a b (drop (length (progressLog s)) (progressLog (fst (m s))))"
    by simp
qed




lemma emits_throw [simp]: "emits strict j a b (throw x)"
  by (rule emitsI) (simp add: throw_def)





lemma log_cleanupFile [simp]: "progressLog (cleanupFile p s) = progressLog s"
  by (simp add: cleanupFile_def)

lemma log_writeFile [simp]: "progressLog (writeFile p n s) = progressLog s"
  by (simp add: writeFile_def)

lemma log_update [simp]:
  "progressLog (updateProgress j st p m s) = progressLog s @ [(j, st, p, m)]"
  by (simp add: updateProgress_def)



















lemma jsRound_0 [simp]: "jsRound 0 = 0"
  by (simp add: jsRound_def floor_eq_iff)

lemma jsRound_100 [simp]: "jsRound 100 = 100"
  by (simp add: jsRound_def floor_eq_iff)






































lemma percentages_map:
  "percentages j st L =
     map (\<lambda>(k, s, p). p) (filter (\<lambda>(k, s, p). k = j \<and> s = st) (map (\<lambda>(k, st, p, m). (k, st, p)) L))"
  by (induction L) (auto simp: percentages_def)







section \<open>Failing steps\<close>














































text \<open>
  A failed summarisation is caught where it happens as well: \<open>summary\<close> goes from 0 to 100,
  no \<open>error\<close> entry is published and the job completes.
\<close>

lemma unsummarisedServer_log:
  "map (\<lambda>(k, st, p, m). (k, st, p)) (progressLog unsummarisedServer) =
     [(''job1'', ''metadata'', 0), (''job1'', ''metadata'', 100),
      (''job1'', ''rss'', 0), (''job1'', ''rss'', 100),
      (''job1'', ''parse'', 0), (''job1'', ''parse'', 100),
      (''job1'', ''download'', 0), (''job1'', ''download'', 100),
      (''job1'', ''compress'', 0),
      (''job1'', ''transcribe'', 0), (''job1'', ''transcribe'', 100),
      (''job1'', ''summary'', 0), (''job1'', ''summary'', 100), (''job1'', ''complete'', 100)] \<and>
   snd (postTranscript failingSummaryEnv ''job1'' emptyServer) = Inr Started \<and>
   jobField unsummarisedServer ''job1'' ''complete'' = Some (Flag True)"
  by (simp add: unsummarisedServer_def failingSummaryEnv_def eval_defs str_def)

lemma summary_failure_publishes_no_error:
  "gemini failingSummaryEnv (str ''hello'') = Inl ''quota exceeded'' \<and>
   percentages ''job1'' ''summary'' (progressLog unsummarisedServer) = [0, 100] \<and>
   percentages ''job1'' ''error'' (progressLog unsummarisedServer) = [] \<and>
   percentages ''job1'' ''complete'' (progressLog unsummarisedServer) = [100]"
  using unsummarisedServer_log
  by (simp add: percentages_map failingSummaryEnv_def)

end
